theory Spec2Isabelle
  imports Main
begin

section \<open>The hub connection engine of signalrcore\<close>

text \<open>
  A shallow embedding of \<^verbatim>\<open>signalrcore/hub/base_hub_connection.py\<close> and of the
  \<^verbatim>\<open>send\<close> method of \<^verbatim>\<open>signalrcore/hub_connection_builder.py\<close>.

  Conventions of the embedding.
  \<^item> A Python method that mutates \<^verbatim>\<open>self\<close> and may raise becomes a function from the
    object's state to a pair: the outcome (\<open>Inl\<close> the exception raised, \<open>Inr\<close> the value
    returned) and the state as the method left it. The state is returned on the error
    path as well, since Python keeps every assignment made before a \<^verbatim>\<open>raise\<close>.
  \<^item> What the engine does to its collaborators (user callbacks, the logger, the web
    socket, the connection checker) is appended to the field \<open>trace\<close>, in program order.
  \<^item> A user callback is an opaque callable, known by an identifier; calling it records
    a \<open>Call\<close> event and returns. Callbacks that raise, block, or call back into the
    connection are outside the model. A callback attribute may hold \<^verbatim>\<open>None\<close>, as the
    constructor of \<^verbatim>\<open>StreamHandler\<close> leaves it; calling \<^verbatim>\<open>None\<close> raises \<^verbatim>\<open>TypeError\<close>.
  \<^item> \<^verbatim>\<open>StreamHandler\<close> objects are shared between the tracker list and the caller of
    \<^verbatim>\<open>stream\<close>, who mutates them through \<^verbatim>\<open>subscribe\<close>; they live in an explicit store
    \<open>heap\<close>, and the tracker holds references.
  \<^item> The results of \<^verbatim>\<open>uuid.uuid4()\<close>, of \<^verbatim>\<open>time.time()\<close> and of the socket write are
    inputs of the functions that use them.
  \<^item> Threads are not modelled: every method runs to its end before the next starts.
\<close>

subsection \<open>Values, messages, exceptions\<close>

datatype pyval =
    PyNone
  | PyBool bool
  | PyInt int
  | PyStr string
  | PyList "pyval list"
  | PyDict "(string \<times> pyval) list"

text \<open>\<^verbatim>\<open>type(arguments) is list\<close>\<close>

fun is_list :: "pyval \<Rightarrow> bool" where
  "is_list (PyList xs) = True"
| "is_list v = False"

type_synonym callback = nat
type_synonym ref = nat
type_synonym raw_frame = string
type_synonym timestamp = int
type_synonym headers = "(string \<times> string) list"

text \<open>
  Modelled from the spec: the message classes of \<^verbatim>\<open>signalrcore.messages\<close> are not part
  of the sources at hand. The variants and their fields are those of the spec's data
  model; the constructor arguments of \<open>InvocationMessage\<close> and
  \<open>StreamInvocationMessage\<close> are in the order the source passes them
  (headers, invocation id, target, arguments).
\<close>

datatype message =
    HandshakeRequestMessage
  | InvocationMessage headers string string pyval
  | StreamInvocationMessage headers string string pyval
  | StreamItemMessage string pyval
  | CompletionMessage string pyval "string option"
  | PingMessage
  | CloseMessage "string option"
  | CancelInvocationMessage string
  | InvocationBindingFailureMessage string

datatype exn =
    ValueError string
  | HubConnectionError string
  | TypeError
  | AttributeError
  | KeyError string
  | NameError string
  | WebSocketConnectionClosedException
  | ConnectionResetError
  | OtherException string

datatype call_arg = ArgValue pyval | ArgMessage message

datatype log_entry =
    BindingFailure message
  | UnhandledEvent string
  | UnhandledStream string
  | CloseReceived
  | HandshakeFailed string
  | ConnectionClosed exn

datatype event =
    Call callback call_arg
  | LogError log_entry
  | LogWarn log_entry
  | LogInfo log_entry
  | WsSend raw_frame
  | WsClose
  | WsCreate string
  | ThreadStart
  | CheckerStart
  | CheckerStop

subsection \<open>Objects\<close>

record StreamHandler =
  event :: string
  invocation_id :: string
  next_callback :: "callback option"
  complete_callback :: "callback option"
  error_callback :: "callback option"

text \<open>\<^verbatim>\<open>StreamHandler.__init__\<close>\<close>

definition StreamHandler_init :: "string \<Rightarrow> string \<Rightarrow> StreamHandler" where
  "StreamHandler_init ev iid =
     \<lparr>event = ev, invocation_id = iid, next_callback = None,
      complete_callback = None, error_callback = None\<rparr>"

text \<open>
  Modelled from the spec: the reconnection handler classes of
  \<^verbatim>\<open>signalrcore.hub.reconnection\<close> are not part of the sources at hand. The engine
  reads and writes the attribute \<^verbatim>\<open>reconnecting\<close> and constructs a handler from
  \<^verbatim>\<open>sleep_time\<close> and \<^verbatim>\<open>max_attemps\<close>.
\<close>

record ReconnectionHandler =
  reconnecting :: bool
  sleep_time :: int
  max_attemps :: "int option"

text \<open>
  Modelled from the spec: the enumeration \<^verbatim>\<open>ReconnectionType\<close> is not part of the
  sources at hand; the source names its members \<^verbatim>\<open>raw\<close> (the spec's Fixed) and
  \<^verbatim>\<open>exponential\<close>. \<open>ReconnectionType_getitem\<close> is the lookup by member name,
  \<^verbatim>\<open>ReconnectionType[name]\<close>, which raises \<^verbatim>\<open>KeyError\<close> for any other name.
\<close>

datatype ReconnectionType = raw | exponential

definition ReconnectionType_getitem :: "string \<Rightarrow> ReconnectionType option" where
  "ReconnectionType_getitem name =
     (if name = ''raw'' then Some raw
      else if name = ''exponential'' then Some exponential
      else None)"

text \<open>The protocol collaborator, \<^verbatim>\<open>self.protocol\<close>; \<open>decode_handshake\<close> gives the
  \<^verbatim>\<open>error\<close> attribute of the decoded handshake response.\<close>

record protocol =
  decode_handshake :: "raw_frame \<Rightarrow> string option"
  parse_messages :: "raw_frame \<Rightarrow> message list"
  encode :: "message \<Rightarrow> raw_frame"

text \<open>
  The attributes of \<^verbatim>\<open>BaseHubConnection\<close>. \<open>ws\<close> is \<^verbatim>\<open>_ws\<close> (the URL it was created
  for, when there is one); \<open>last_message\<close> and \<open>keep_alive_interval\<close> are the two
  attributes of \<^verbatim>\<open>connection_checker\<close> that the engine assigns (the checker's class
  is not part of the sources at hand; \<open>last_message\<close> starts at 0 here). \<open>heap\<close>, \<open>next_ref\<close>
  and \<open>trace\<close> belong to the embedding.
\<close>

record BaseHubConnection =
  url :: string
  protocol :: protocol
  handshake_received :: bool
  connection_alive :: bool
  handlers :: "(string \<times> callback) list"
  stream_handlers :: "ref list"
  ws :: "string option"
  last_message :: timestamp
  keep_alive_interval :: int
  reconnection_handler :: "ReconnectionHandler option"
  heap :: "ref \<Rightarrow> StreamHandler"
  next_ref :: ref
  trace :: "event list"

text \<open>\<^verbatim>\<open>BaseHubConnection.__init__\<close>\<close>

definition BaseHubConnection_init :: "string \<Rightarrow> protocol \<Rightarrow> BaseHubConnection" where
  "BaseHubConnection_init u p =
     \<lparr>url = u, protocol = p, handshake_received = False, connection_alive = False,
      handlers = [], stream_handlers = [], ws = None, last_message = 0,
      keep_alive_interval = 15, reconnection_handler = None,
      heap = (\<lambda>r. StreamHandler_init [] []), next_ref = 0, trace = []\<rparr>"

definition emit :: "event \<Rightarrow> BaseHubConnection \<Rightarrow> BaseHubConnection" where
  "emit e s = s\<lparr>trace := trace s @ [e]\<rparr>"

subsection \<open>StreamHandler.subscribe\<close>

text \<open>
  The argument is \<^verbatim>\<open>None\<close> or a dictionary from names to values, each value \<^verbatim>\<open>None\<close>
  or a callable. The three assignments run in order, so a missing key leaves the
  earlier ones done. The handler is the object at reference \<open>r\<close>.
\<close>

definition set_handler :: "ref \<Rightarrow> (StreamHandler \<Rightarrow> StreamHandler) \<Rightarrow>
    BaseHubConnection \<Rightarrow> BaseHubConnection" where
  "set_handler r f s = s\<lparr>heap := (heap s)(r := f (heap s r))\<rparr>"

definition subscribe :: "BaseHubConnection \<Rightarrow> ref \<Rightarrow> (string \<rightharpoonup> callback option) option \<Rightarrow>
    (exn + unit) \<times> BaseHubConnection" where
  "subscribe s r subscribe_callbacks =
     (case subscribe_callbacks of
        None \<Rightarrow>
          (Inl (ValueError
             '' subscribe object must be {'next': None, 'complete': None, 'error': None}''), s)
      | Some d \<Rightarrow>
          (case d ''next'' of
             None \<Rightarrow> (Inl (KeyError ''next''), s)
           | Some n \<Rightarrow>
               let s1 = set_handler r (\<lambda>h. h\<lparr>next_callback := n\<rparr>) s in
               (case d ''complete'' of
                  None \<Rightarrow> (Inl (KeyError ''complete''), s1)
                | Some c \<Rightarrow>
                    let s2 = set_handler r (\<lambda>h. h\<lparr>complete_callback := c\<rparr>) s1 in
                    (case d ''error'' of
                       None \<Rightarrow> (Inl (KeyError ''error''), s2)
                     | Some e \<Rightarrow>
                         (Inr (), set_handler r (\<lambda>h. h\<lparr>error_callback := e\<rparr>) s2)))))"

subsection \<open>start, stop, register\_handler\<close>

definition start :: "BaseHubConnection \<Rightarrow> BaseHubConnection" where
  "start s = emit CheckerStart (emit ThreadStart (emit (WsCreate (url s)) (s\<lparr>ws := Some (url s)\<rparr>)))"

definition stop :: "BaseHubConnection \<Rightarrow> BaseHubConnection" where
  "stop s = emit CheckerStop (if connection_alive s then emit WsClose s else s)"

definition register_handler :: "BaseHubConnection \<Rightarrow> string \<Rightarrow> callback \<Rightarrow> BaseHubConnection" where
  "register_handler s ev cb = s\<lparr>handlers := handlers s @ [(ev, cb)]\<rparr>"

subsection \<open>configure\_reconnection\<close>

text \<open>
  Both branches call the global name \<^verbatim>\<open>ReconnectionHandler\<close>. What that name is bound
  to is the parameter \<open>binding\<close>: \<open>None\<close> when the name is unbound, which raises
  \<^verbatim>\<open>NameError\<close>, or the constructor, applied to \<^verbatim>\<open>sleep_time\<close> and \<^verbatim>\<open>max_attemps\<close>.
\<close>

definition construct_handler :: "(int \<Rightarrow> int option \<Rightarrow> ReconnectionHandler) option \<Rightarrow>
    int \<Rightarrow> int option \<Rightarrow> BaseHubConnection \<Rightarrow> (exn + unit) \<times> BaseHubConnection" where
  "construct_handler binding reconnect_interval max_att s =
     (case binding of
        None \<Rightarrow> (Inl (NameError ''ReconnectionHandler''), s)
      | Some ctor \<Rightarrow> (Inr (), s\<lparr>reconnection_handler := Some (ctor reconnect_interval max_att)\<rparr>))"

definition configure_reconnection :: "(int \<Rightarrow> int option \<Rightarrow> ReconnectionHandler) option \<Rightarrow>
    BaseHubConnection \<Rightarrow> string \<Rightarrow> int \<Rightarrow> int \<Rightarrow> int option \<Rightarrow>
    (exn + unit) \<times> BaseHubConnection" where
  "configure_reconnection binding s reconnection_type keep_alive reconnect_interval max_att =
     (let s1 = s\<lparr>keep_alive_interval := keep_alive\<rparr> in
      case ReconnectionType_getitem reconnection_type of
        None \<Rightarrow> (Inl (KeyError reconnection_type), s1)
      | Some reconn_type \<Rightarrow>
          (case (if reconn_type = raw
                 then construct_handler binding reconnect_interval max_att s1
                 else (Inr (), s1)) of
             (Inl e, s2) \<Rightarrow> (Inl e, s2)
           | (Inr u, s2) \<Rightarrow>
               (if reconn_type = exponential
                then construct_handler binding reconnect_interval max_att s2
                else (Inr (), s2))))"

text \<open>
  The module imports \<^verbatim>\<open>ConnectionStateChecker\<close>, \<^verbatim>\<open>ExponentialReconnectionHandler\<close>,
  \<^verbatim>\<open>RawReconnectionHandler\<close> and \<^verbatim>\<open>ReconnectionType\<close> from \<^verbatim>\<open>.reconnection\<close> and
  defines \<^verbatim>\<open>StreamHandler\<close> and \<^verbatim>\<open>BaseHubConnection\<close>; it never binds the name
  \<^verbatim>\<open>ReconnectionHandler\<close>.
\<close>

definition module_ReconnectionHandler :: "(int \<Rightarrow> int option \<Rightarrow> ReconnectionHandler) option" where
  "module_ReconnectionHandler = None"

subsection \<open>evaluate\_handshake\<close>

text \<open>
  The assignment \<^verbatim>\<open>self.reconnection_handler.reconnecting = False\<close> raises
  \<^verbatim>\<open>AttributeError\<close> when \<^verbatim>\<open>reconnection_handler\<close> is \<^verbatim>\<open>None\<close>; the two assignments
  before it have been made by then.
\<close>

definition evaluate_handshake :: "BaseHubConnection \<Rightarrow> raw_frame \<Rightarrow>
    (exn + unit) \<times> BaseHubConnection" where
  "evaluate_handshake s message =
     (let error = decode_handshake (protocol s) message in
      if error = None \<or> error = Some [] then
        (let s1 = s\<lparr>handshake_received := True, connection_alive := True\<rparr> in
         case reconnection_handler s1 of
           None \<Rightarrow> (Inl AttributeError, s1)
         | Some rh \<Rightarrow>
             (Inr (), s1\<lparr>reconnection_handler := Some (rh\<lparr>reconnecting := False\<rparr>)\<rparr>))
      else
        (Inl (ValueError (''Handshake error '' @ the error)),
         emit (LogError (HandshakeFailed (the error))) s))"

subsection \<open>send\<close>

text \<open>
  \<open>ws_outcome\<close> is what \<^verbatim>\<open>self._ws.send(self.protocol.encode(message))\<close> does once
  \<^verbatim>\<open>self._ws\<close> is a socket: \<open>None\<close> when it returns, \<open>Some ex\<close> when it raises \<open>ex\<close>.
  With \<^verbatim>\<open>self._ws\<close> still \<^verbatim>\<open>None\<close> the attribute lookup raises \<^verbatim>\<open>AttributeError\<close>
  before anything is encoded. \<open>now\<close> is the reading of \<^verbatim>\<open>time.time()\<close>.
\<close>

definition connection_closed :: "exn \<Rightarrow> bool" where
  "connection_closed ex \<longleftrightarrow> ex = WebSocketConnectionClosedException \<or> ex = ConnectionResetError"

definition send :: "BaseHubConnection \<Rightarrow> message \<Rightarrow> exn option \<Rightarrow> timestamp \<Rightarrow>
    (exn + unit) \<times> BaseHubConnection" where
  "send s message ws_outcome now =
     (case ws s of
        None \<Rightarrow> (Inl AttributeError, s)
      | Some sock \<Rightarrow>
          (case ws_outcome of
             None \<Rightarrow> (Inr (), (emit (WsSend (encode (protocol s) message)) s)\<lparr>last_message := now\<rparr>)
           | Some ex \<Rightarrow>
               if connection_closed ex then
                 (case reconnection_handler s of
                    None \<Rightarrow> (Inl ex, s)
                  | Some rh \<Rightarrow>
                      (let s1 = (emit (LogError (ConnectionClosed ex)) s)\<lparr>connection_alive := False\<rparr> in
                       if \<not> reconnecting rh then
                         (Inr (), start (stop (s1\<lparr>reconnection_handler :=
                                                    Some (rh\<lparr>reconnecting := True\<rparr>)\<rparr>)))
                       else (Inr (), s1)))
               else (Inl ex, s)))"

subsection \<open>send, statement by statement\<close>

text \<open>
  \<^verbatim>\<open>send\<close> is called by the application and, through the callback given to the
  connection checker in the constructor (\<^verbatim>\<open>lambda: self.send(PingMessage())\<close>), by the
  checker's timer; the two calls may overlap. To follow overlapping calls, \<^verbatim>\<open>send\<close> is
  cut at its statements: a call is at a source line (\<open>L205\<close> is the socket write,
  \<open>L215\<close> the test of \<^verbatim>\<open>reconnecting\<close>, \<open>L216\<close> its assignment) or has returned or
  raised, and \<open>send_step\<close> runs the statement the call is at. \<^verbatim>\<open>stop\<close> and \<^verbatim>\<open>start\<close> are
  taken as one step each. \<open>interleave\<close> runs the calls in the order a schedule gives,
  one statement of one call at a time.
\<close>

datatype pc = L205 | L206 | L210 | L213 | L214 | L215 | L216 | L217 | L218 | Returned | Raised exn

record send_thread =
  at :: pc
  msg :: message
  outcome :: "exn option"
  clock :: timestamp

definition send_step :: "send_thread \<Rightarrow> BaseHubConnection \<Rightarrow> send_thread \<times> BaseHubConnection" where
  "send_step t s =
     (case at t of
        L205 \<Rightarrow>
          (case ws s of
             None \<Rightarrow> (t\<lparr>at := Raised AttributeError\<rparr>, s)
           | Some sock \<Rightarrow>
               (case outcome t of
                  None \<Rightarrow> (t\<lparr>at := L206\<rparr>, emit (WsSend (encode (protocol s) (msg t))) s)
                | Some ex \<Rightarrow>
                    if connection_closed ex then (t\<lparr>at := L210\<rparr>, s)
                    else (t\<lparr>at := Raised ex\<rparr>, s)))
      | L206 \<Rightarrow> (t\<lparr>at := Returned\<rparr>, s\<lparr>last_message := clock t\<rparr>)
      | L210 \<Rightarrow>
          (case reconnection_handler s of
             None \<Rightarrow> (t\<lparr>at := Raised (the (outcome t))\<rparr>, s)
           | Some rh \<Rightarrow> (t\<lparr>at := L213\<rparr>, s))
      | L213 \<Rightarrow> (t\<lparr>at := L214\<rparr>, emit (LogError (ConnectionClosed (the (outcome t)))) s)
      | L214 \<Rightarrow> (t\<lparr>at := L215\<rparr>, s\<lparr>connection_alive := False\<rparr>)
      | L215 \<Rightarrow>
          (case reconnection_handler s of
             None \<Rightarrow> (t\<lparr>at := Raised AttributeError\<rparr>, s)
           | Some rh \<Rightarrow> (t\<lparr>at := (if \<not> reconnecting rh then L216 else Returned)\<rparr>, s))
      | L216 \<Rightarrow>
          (case reconnection_handler s of
             None \<Rightarrow> (t\<lparr>at := Raised AttributeError\<rparr>, s)
           | Some rh \<Rightarrow>
               (t\<lparr>at := L217\<rparr>, s\<lparr>reconnection_handler := Some (rh\<lparr>reconnecting := True\<rparr>)\<rparr>))
      | L217 \<Rightarrow> (t\<lparr>at := L218\<rparr>, stop s)
      | L218 \<Rightarrow> (t\<lparr>at := Returned\<rparr>, start s)
      | Returned \<Rightarrow> (t, s)
      | Raised ex \<Rightarrow> (t, s))"

fun interleave :: "nat list \<Rightarrow> (nat \<Rightarrow> send_thread) \<Rightarrow> BaseHubConnection \<Rightarrow>
    (nat \<Rightarrow> send_thread) \<times> BaseHubConnection" where
  "interleave [] ts s = (ts, s)"
| "interleave (i # sched) ts s =
     (case send_step (ts i) s of (t1, s1) \<Rightarrow> interleave sched (ts(i := t1)) s1)"

subsection \<open>on\_message\<close>

text \<open>The two \<^verbatim>\<open>for\<close> statements over the fired handlers.\<close>

primrec invoke_all :: "(string \<times> callback) list \<Rightarrow> pyval \<Rightarrow> BaseHubConnection \<Rightarrow> BaseHubConnection" where
  "invoke_all [] arguments s = s"
| "invoke_all (h # hs) arguments s = invoke_all hs arguments (emit (Call (snd h) (ArgValue arguments)) s)"

primrec fire :: "(StreamHandler \<Rightarrow> callback option) \<Rightarrow> call_arg \<Rightarrow> ref list \<Rightarrow>
    BaseHubConnection \<Rightarrow> (exn + unit) \<times> BaseHubConnection" where
  "fire cb_of a [] s = (Inr (), s)"
| "fire cb_of a (h # hs) s =
     (case cb_of (heap s h) of
        None \<Rightarrow> (Inl TypeError, s)
      | Some c \<Rightarrow> fire cb_of a hs (emit (Call c a) s))"

definition unregister :: "string \<Rightarrow> BaseHubConnection \<Rightarrow> BaseHubConnection" where
  "unregister iid s =
     s\<lparr>stream_handlers := filter (\<lambda>h. invocation_id (heap s h) \<noteq> iid) (stream_handlers s)\<rparr>"

text \<open>
  The body of the loop over the decoded messages, for one message. A message has one
  type, so the chain of \<^verbatim>\<open>if message.type == ...\<close> tests is a case distinction.
  \<open>Continue\<close>: the loop goes on with the next message (by \<^verbatim>\<open>continue\<close> or by reaching
  the end of the body); \<open>Return\<close>: \<^verbatim>\<open>on_message\<close> returns.
\<close>

datatype ctl = Continue | Return

fun dispatch :: "BaseHubConnection \<Rightarrow> message \<Rightarrow> (exn + ctl) \<times> BaseHubConnection" where
  "dispatch s (InvocationBindingFailureMessage e) =
     (Inr Continue, emit (LogError (BindingFailure (InvocationBindingFailureMessage e))) s)"
| "dispatch s PingMessage = (Inr Continue, s)"
| "dispatch s (InvocationMessage hdrs iid target arguments) =
     (let fired_handlers = filter (\<lambda>h. fst h = target) (handlers s);
          s1 = (if length fired_handlers = 0 then emit (LogWarn (UnhandledEvent target)) s else s)
      in (Inr Continue, invoke_all fired_handlers arguments s1))"
| "dispatch s (CloseMessage e) =
     (Inr Return, (emit (LogInfo CloseReceived) s)\<lparr>connection_alive := False\<rparr>)"
| "dispatch s (CompletionMessage iid res e) =
     (let fired_handlers = filter (\<lambda>h. invocation_id (heap s h) = iid) (stream_handlers s) in
      case fire complete_callback (ArgMessage (CompletionMessage iid res e)) fired_handlers s of
        (Inl ex, s1) \<Rightarrow> (Inl ex, s1)
      | (Inr u, s1) \<Rightarrow> (Inr Continue, unregister iid s1))"
| "dispatch s (StreamItemMessage iid item) =
     (let fired_handlers = filter (\<lambda>h. invocation_id (heap s h) = iid) (stream_handlers s);
          s1 = (if length fired_handlers = 0 then emit (LogWarn (UnhandledStream iid)) s else s)
      in case fire next_callback (ArgValue item) fired_handlers s1 of
        (Inl ex, s2) \<Rightarrow> (Inl ex, s2)
      | (Inr u, s2) \<Rightarrow> (Inr Continue, s2))"
| "dispatch s (StreamInvocationMessage hdrs iid target arguments) = (Inr Continue, s)"
| "dispatch s (CancelInvocationMessage iid) =
     (let fired_handlers = filter (\<lambda>h. invocation_id (heap s h) = iid) (stream_handlers s);
          s1 = (if length fired_handlers = 0 then emit (LogWarn (UnhandledStream iid)) s else s)
      in case fire error_callback (ArgMessage (CancelInvocationMessage iid)) fired_handlers s1 of
        (Inl ex, s2) \<Rightarrow> (Inl ex, s2)
      | (Inr u, s2) \<Rightarrow> (Inr Continue, unregister iid s2))"
| "dispatch s HandshakeRequestMessage = (Inr Continue, s)"

fun dispatch_loop :: "BaseHubConnection \<Rightarrow> message list \<Rightarrow> (exn + unit) \<times> BaseHubConnection" where
  "dispatch_loop s [] = (Inr (), s)"
| "dispatch_loop s (m # ms) =
     (case dispatch s m of
        (Inl ex, s1) \<Rightarrow> (Inl ex, s1)
      | (Inr Return, s1) \<Rightarrow> (Inr (), s1)
      | (Inr Continue, s1) \<Rightarrow> dispatch_loop s1 ms)"

definition on_message :: "BaseHubConnection \<Rightarrow> raw_frame \<Rightarrow> timestamp \<Rightarrow>
    (exn + unit) \<times> BaseHubConnection" where
  "on_message s raw_message now =
     (let s1 = s\<lparr>last_message := now\<rparr> in
      if \<not> handshake_received s1 then evaluate_handshake s1 raw_message
      else dispatch_loop s1 (parse_messages (protocol s1) raw_message))"

text \<open>The state after dispatching the messages of a list one after the other, in list
  order, each in the state the one before left.\<close>

definition after_dispatch :: "BaseHubConnection \<Rightarrow> message list \<Rightarrow> BaseHubConnection" where
  "after_dispatch s ms = foldl (\<lambda>s1 m. snd (dispatch s1 m)) s ms"

subsection \<open>stream\<close>

text \<open>
  \<open>iid\<close> is \<^verbatim>\<open>str(uuid.uuid4())\<close>. The new \<^verbatim>\<open>StreamHandler\<close> is allocated at \<open>next_ref\<close>
  and the reference is what \<^verbatim>\<open>stream\<close> returns.
\<close>

definition stream :: "BaseHubConnection \<Rightarrow> string \<Rightarrow> pyval \<Rightarrow> string \<Rightarrow> exn option \<Rightarrow> timestamp \<Rightarrow>
    (exn + ref) \<times> BaseHubConnection" where
  "stream s ev event_params iid ws_outcome now =
     (let stream_obj = next_ref s;
          s1 = s\<lparr>heap := (heap s)(stream_obj := StreamHandler_init ev iid),
                 next_ref := Suc stream_obj\<rparr>;
          s2 = s1\<lparr>stream_handlers := stream_handlers s1 @ [stream_obj]\<rparr>
      in case send s2 (StreamInvocationMessage [] iid ev event_params) ws_outcome now of
        (Inl ex, s3) \<Rightarrow> (Inl ex, s3)
      | (Inr u, s3) \<Rightarrow> (Inr stream_obj, s3))"

subsection \<open>HubConnectionBuilder.send\<close>

text \<open>\<open>hub\<close> is the attribute \<^verbatim>\<open>_hub\<close>, \<^verbatim>\<open>None\<close> until \<^verbatim>\<open>build\<close> has run.\<close>

record HubConnectionBuilder =
  hub_url :: "string option"
  hub :: "BaseHubConnection option"

definition builder_send :: "HubConnectionBuilder \<Rightarrow> string \<Rightarrow> pyval \<Rightarrow> string \<Rightarrow> exn option \<Rightarrow>
    timestamp \<Rightarrow> (exn + unit) \<times> HubConnectionBuilder" where
  "builder_send b method arguments iid ws_outcome now =
     (if \<not> is_list arguments then
        (Inl (HubConnectionError ''Arguments of a message must be a list''), b)
      else
        (case hub b of
           None \<Rightarrow> (Inl AttributeError, b)
         | Some h \<Rightarrow>
             (case send h (InvocationMessage [] iid method arguments) ws_outcome now of
                (r, h1) \<Rightarrow> (r, b\<lparr>hub := Some h1\<rparr>))))"

subsection \<open>Concrete connections\<close>

text \<open>Inputs on which the theorems below are evaluated.\<close>

definition demo_protocol :: "message list \<Rightarrow> protocol" where
  "demo_protocol msgs =
     \<lparr>decode_handshake = (\<lambda>frame. if frame = ''{}'' then None else Some frame),
      parse_messages = (\<lambda>frame. msgs),
      encode = (\<lambda>m. ''frame'')\<rparr>"

definition demo_hub :: "message list \<Rightarrow> BaseHubConnection" where
  "demo_hub msgs = start (BaseHubConnection_init ''ws://localhost:62342/chathub'' (demo_protocol msgs))"

definition demo_registered :: BaseHubConnection where
  "demo_registered =
     register_handler (register_handler (register_handler (demo_hub [])
       ''ReceiveMessage'' 1) ''Other'' 2) ''ReceiveMessage'' 3"

definition demo_policy :: "message list \<Rightarrow> BaseHubConnection" where
  "demo_policy msgs =
     (demo_hub msgs)\<lparr>reconnection_handler :=
        Some \<lparr>reconnecting = False, sleep_time = 5, max_attemps = Some 5\<rparr>\<rparr>"

definition demo_builder :: HubConnectionBuilder where
  "demo_builder = \<lparr>hub_url = Some ''ws://localhost:62342/chathub'', hub = Some (demo_hub [])\<rparr>"

definition demo_connected :: "message list \<Rightarrow> BaseHubConnection" where
  "demo_connected msgs = snd (on_message (demo_policy msgs) ''{}'' 1)"

definition demo_streaming :: "message list \<Rightarrow> BaseHubConnection" where
  "demo_streaming msgs =
     snd (stream (demo_connected msgs) ''Counter'' (PyList [PyInt 10]) ''id1'' None 2)"

definition demo_callbacks :: "string \<rightharpoonup> callback option" where
  "demo_callbacks = [''next'' \<mapsto> Some 1, ''complete'' \<mapsto> Some 2, ''error'' \<mapsto> Some 3]"

definition demo_subscribed :: BaseHubConnection where
  "demo_subscribed = snd (subscribe (demo_streaming []) 0 (Some demo_callbacks))"

definition demo_listening :: "message list \<Rightarrow> BaseHubConnection" where
  "demo_listening msgs = register_handler (demo_connected msgs) ''ReceiveMessage'' 1"

definition demo_ordered_batch :: "message list" where
  "demo_ordered_batch =
     [InvocationMessage [] ''i1'' ''ReceiveMessage'' (PyList [PyStr ''first'']),
      InvocationMessage [] ''i2'' ''ReceiveMessage'' (PyList [PyStr ''second'']),
      CloseMessage None,
      InvocationMessage [] ''i3'' ''ReceiveMessage'' (PyList [PyStr ''late''])]"

definition demo_threads :: "nat \<Rightarrow> send_thread" where
  "demo_threads i =
     (if i = 0
      then \<lparr>at = L205, msg = InvocationMessage [] ''i1'' ''SendMessage'' (PyList [PyStr ''hi'']),
            outcome = Some WebSocketConnectionClosedException, clock = 3\<rparr>
      else \<lparr>at = L205, msg = PingMessage, outcome = Some ConnectionResetError, clock = 4\<rparr>)"

definition demo_schedule :: "nat list" where
  "demo_schedule = [0, 0, 0, 0, 0, 1, 1, 1, 1, 1, 0, 0, 0, 1, 1, 1]"

definition demo_failing_batch :: "message list" where
  "demo_failing_batch = [CompletionMessage ''id1'' PyNone None, CloseMessage None]"

section \<open>Properties\<close>

subsection \<open>Auxiliary facts\<close>

lemma emit_fields [simp]:
  "trace (emit e s) = trace s @ [e]"
  "handlers (emit e s) = handlers s"
  "stream_handlers (emit e s) = stream_handlers s"
  "heap (emit e s) = heap s"
  "next_ref (emit e s) = next_ref s"
  "connection_alive (emit e s) = connection_alive s"
  "handshake_received (emit e s) = handshake_received s"
  "reconnection_handler (emit e s) = reconnection_handler s"
  "ws (emit e s) = ws s"
  "url (emit e s) = url s"
  "protocol (emit e s) = protocol s"
  "last_message (emit e s) = last_message s"
  "keep_alive_interval (emit e s) = keep_alive_interval s"
  by (simp_all add: emit_def)

lemma invoke_all_eq:
  "invoke_all hs a s = s\<lparr>trace := trace s @ map (\<lambda>h. Call (snd h) (ArgValue a)) hs\<rparr>"
  by (induction hs arbitrary: s) (simp_all add: emit_def)

lemma fire_ok:
  "\<forall>h\<in>set hs. cb_of (heap s h) \<noteq> None \<Longrightarrow>
   fire cb_of a hs s =
     (Inr (), s\<lparr>trace := trace s @ map (\<lambda>h. Call (the (cb_of (heap s h))) a) hs\<rparr>)"
  by (induction hs arbitrary: s) (auto simp: emit_def)

subsection \<open>Routing of invocations\<close>

text \<open>
  C1. \<^verbatim>\<open>register_handler\<close> appends to the handler list. Dispatching an
  \<open>InvocationMessage\<close> with target \<open>t\<close> calls, with the message's arguments, the
  callbacks of the registrations whose event name is \<open>t\<close>, in the order of the list,
  and calls nothing else; when no registration matches, a warning naming \<open>t\<close> is
  logged before; in both cases the loop goes on, and nothing but the trace changes.
\<close>

theorem invocation_dispatch:
  "dispatch s (InvocationMessage hdrs iid t args) =
     (Inr Continue,
      s\<lparr>trace := trace s
           @ (if filter (\<lambda>h. fst h = t) (handlers s) = [] then [LogWarn (UnhandledEvent t)] else [])
           @ map (\<lambda>h. Call (snd h) (ArgValue args)) (filter (\<lambda>h. fst h = t) (handlers s))\<rparr>)
   \<and> handlers (register_handler s ev cb) = handlers s @ [(ev, cb)]"
  by (simp add: invoke_all_eq emit_def register_handler_def Let_def)

theorem invocation_dispatch_witness:
  "dispatch demo_registered (InvocationMessage [] ''i1'' ''ReceiveMessage'' (PyList [PyStr ''hi''])) =
     (Inr Continue,
      demo_registered\<lparr>trace := trace demo_registered
          @ [Call 1 (ArgValue (PyList [PyStr ''hi''])), Call 3 (ArgValue (PyList [PyStr ''hi'']))]\<rparr>)
   \<and> dispatch demo_registered (InvocationMessage [] ''i2'' ''Unknown'' (PyList [])) =
     (Inr Continue,
      demo_registered\<lparr>trace := trace demo_registered @ [LogWarn (UnhandledEvent ''Unknown'')]\<rparr>)"
  using invocation_dispatch [of demo_registered "[]" "''i1''" "''ReceiveMessage''" "PyList [PyStr ''hi'']"]
        invocation_dispatch [of demo_registered "[]" "''i2''" "''Unknown''" "PyList []"]
  by (simp add: demo_registered_def register_handler_def demo_hub_def start_def
      BaseHubConnection_init_def)

subsection \<open>Sending\<close>

lemma send_keeps_tracker:
  "stream_handlers (snd (send s m out now)) = stream_handlers s
   \<and> heap (snd (send s m out now)) = heap s
   \<and> next_ref (snd (send s m out now)) = next_ref s"
  by (simp add: send_def start_def stop_def Let_def split: option.splits)

text \<open>
  C3, as amended. Every outcome of \<^verbatim>\<open>send\<close>. Without a socket the attribute error propagates. With
  one: a write that returns records the frame and sets the liveness timestamp; an
  exception that is not a connection-closed one propagates and changes nothing; a
  connection-closed exception propagates exactly when no reconnection handler is
  configured; with a handler it is swallowed and the connection marked not alive, and
  then, if the handler is not reconnecting, the flag is set and \<^verbatim>\<open>stop\<close> and \<^verbatim>\<open>start\<close>
  run (the checker is stopped, a socket is created, its thread and the checker are
  started), while a handler that is already reconnecting leaves it at the log entry. So
  a connection-closed failure handled after the first one has set the flag starts
  nothing again: failures handled one after the other start one reconnection.
\<close>

theorem send_behaviour:
  "(ws s = None \<longrightarrow> send s m out now = (Inl AttributeError, s))
   \<and> (ws s = Some sock \<longrightarrow>
       send s m None now = (Inr (), (emit (WsSend (encode (protocol s) m)) s)\<lparr>last_message := now\<rparr>)
     \<and> (\<not> connection_closed ex \<longrightarrow> send s m (Some ex) now = (Inl ex, s))
     \<and> (connection_closed ex \<longrightarrow>
          (fst (send s m (Some ex) now) = Inl ex \<longleftrightarrow> reconnection_handler s = None)
        \<and> (reconnection_handler s = None \<longrightarrow> send s m (Some ex) now = (Inl ex, s))
        \<and> (\<forall>rh. reconnection_handler s = Some rh \<and> reconnecting rh \<longrightarrow>
              send s m (Some ex) now =
                (Inr (), (emit (LogError (ConnectionClosed ex)) s)\<lparr>connection_alive := False\<rparr>))
        \<and> (\<forall>rh. reconnection_handler s = Some rh \<and> \<not> reconnecting rh \<longrightarrow>
              send s m (Some ex) now =
                (Inr (), s\<lparr>connection_alive := False,
                           reconnection_handler := Some (rh\<lparr>reconnecting := True\<rparr>),
                           ws := Some (url s),
                           trace := trace s @ [LogError (ConnectionClosed ex), CheckerStop,
                                               WsCreate (url s), ThreadStart, CheckerStart]\<rparr>)
            \<and> (\<forall>m2 ex2 now2. connection_closed ex2 \<longrightarrow>
                  send (snd (send s m (Some ex) now)) m2 (Some ex2) now2 =
                    (Inr (), (emit (LogError (ConnectionClosed ex2)) (snd (send s m (Some ex) now)))
                                \<lparr>connection_alive := False\<rparr>)))))"
  by (auto simp: send_def start_def stop_def emit_def Let_def split: option.splits)

theorem send_behaviour_witness:
  "send (demo_hub []) PingMessage (Some WebSocketConnectionClosedException) 3 =
     (Inl WebSocketConnectionClosedException, demo_hub [])
   \<and> fst (send (demo_policy []) PingMessage (Some WebSocketConnectionClosedException) 3) = Inr ()
   \<and> trace (snd (send (snd (send (demo_policy []) PingMessage
                                (Some WebSocketConnectionClosedException) 3))
                     PingMessage (Some ConnectionResetError) 4)) =
       trace (demo_policy []) @
         [LogError (ConnectionClosed WebSocketConnectionClosedException), CheckerStop,
          WsCreate ''ws://localhost:62342/chathub'', ThreadStart, CheckerStart,
          LogError (ConnectionClosed ConnectionResetError)]
   \<and> last_message (snd (send (demo_hub []) PingMessage None 3)) = 3"
  using send_behaviour [where s = "demo_hub []" and m = PingMessage and now = 3
          and sock = "''ws://localhost:62342/chathub''" and ex = WebSocketConnectionClosedException]
        send_behaviour [where s = "demo_policy []" and m = PingMessage and now = 3
          and sock = "''ws://localhost:62342/chathub''" and ex = WebSocketConnectionClosedException]
  by (simp add: demo_policy_def demo_hub_def start_def stop_def send_def
      BaseHubConnection_init_def connection_closed_def emit_def)

text \<open>
  A call of \<^verbatim>\<open>send\<close> that runs its statements without another call in between does
  what \<open>send\<close> does.
\<close>

lemma send_alone:
  assumes "at t = L205"
  shows "snd (interleave [0, 0, 0, 0, 0, 0, 0, 0] (\<lambda>i. t) s) = snd (send s (msg t) (outcome t) (clock t))
     \<and> at (fst (interleave [0, 0, 0, 0, 0, 0, 0, 0] (\<lambda>i. t) s) 0) =
         (case fst (send s (msg t) (outcome t) (clock t)) of Inl ex \<Rightarrow> Raised ex | Inr u \<Rightarrow> Returned)"
  using assms
  by (auto simp: send_step_def send_def Let_def emit_def split: option.splits)

text \<open>
  Two overlapping calls whose socket writes both fail with a connection-closed
  exception, on a connection with a reconnection handler that is not reconnecting: the
  first call tests the flag at \<open>L215\<close>, the second runs up to and including its own
  test before the first has set the flag at \<open>L216\<close>, and then each sets the flag and
  runs \<^verbatim>\<open>stop\<close> and \<^verbatim>\<open>start\<close>. Both calls return, and two reconnections are started.
\<close>

theorem send_interleaving_counterexample:
  "at (fst (interleave demo_schedule demo_threads (demo_policy [])) 0) = Returned
   \<and> at (fst (interleave demo_schedule demo_threads (demo_policy [])) 1) = Returned
   \<and> trace (snd (interleave demo_schedule demo_threads (demo_policy []))) =
       trace (demo_policy []) @
         [LogError (ConnectionClosed WebSocketConnectionClosedException),
          LogError (ConnectionClosed ConnectionResetError),
          CheckerStop, WsCreate ''ws://localhost:62342/chathub'', ThreadStart, CheckerStart,
          CheckerStop, WsCreate ''ws://localhost:62342/chathub'', ThreadStart, CheckerStart]"
  by (simp add: demo_schedule_def demo_threads_def demo_policy_def demo_hub_def start_def stop_def
      BaseHubConnection_init_def send_step_def connection_closed_def emit_def)

subsection \<open>Starting a stream\<close>

text \<open>
  C10. Whatever the socket write does, the connection that \<^verbatim>\<open>stream\<close> leaves tracks the
  new handler at the end of the tracker, with the generated invocation id and no
  callback yet. The handler is registered before the message is handed to \<^verbatim>\<open>send\<close>:
  the state \<^verbatim>\<open>stream\<close> leaves is the one \<^verbatim>\<open>send\<close> leaves when started with the handler
  tracked, and \<^verbatim>\<open>stream\<close> raises exactly what that \<^verbatim>\<open>send\<close> raises.
\<close>

theorem stream_registers:
  "stream_handlers (snd (stream s ev ps iid out now)) = stream_handlers s @ [next_ref s]
   \<and> heap (snd (stream s ev ps iid out now)) (next_ref s) = StreamHandler_init ev iid
   \<and> snd (stream s ev ps iid out now) =
       snd (send (s\<lparr>heap := (heap s)(next_ref s := StreamHandler_init ev iid),
                    next_ref := Suc (next_ref s),
                    stream_handlers := stream_handlers s @ [next_ref s]\<rparr>)
              (StreamInvocationMessage [] iid ev ps) out now)
   \<and> fst (stream s ev ps iid out now) =
       map_sum id (\<lambda>u. next_ref s)
         (fst (send (s\<lparr>heap := (heap s)(next_ref s := StreamHandler_init ev iid),
                    next_ref := Suc (next_ref s),
                    stream_handlers := stream_handlers s @ [next_ref s]\<rparr>)
              (StreamInvocationMessage [] iid ev ps) out now))"
proof -
  let ?s2 = "s\<lparr>heap := (heap s)(next_ref s := StreamHandler_init ev iid),
                    next_ref := Suc (next_ref s),
                    stream_handlers := stream_handlers s @ [next_ref s]\<rparr>"
  let ?r = "send ?s2 (StreamInvocationMessage [] iid ev ps) out now"
  have st: "stream s ev ps iid out now =
      (case ?r of (Inl ex, s3) \<Rightarrow> (Inl ex, s3) | (Inr u, s3) \<Rightarrow> (Inr (next_ref s), s3))"
    by (simp add: stream_def Let_def)
  have sn: "snd (stream s ev ps iid out now) = snd ?r"
    unfolding st by (cases ?r) (auto split: sum.splits)
  have ft: "fst (stream s ev ps iid out now) = map_sum id (\<lambda>u. next_ref s) (fst ?r)"
    unfolding st by (cases ?r) (auto split: sum.splits)
  have k: "stream_handlers (snd ?r) = stream_handlers ?s2 \<and> heap (snd ?r) = heap ?s2"
    using send_keeps_tracker [of ?s2] by blast
  show ?thesis using sn ft k by simp
qed

theorem stream_registers_witness:
  "fst (stream (demo_hub []) ''Counter'' (PyList [PyInt 10]) ''id1''
          (Some WebSocketConnectionClosedException) 2) = Inl WebSocketConnectionClosedException
   \<and> stream_handlers (snd (stream (demo_hub []) ''Counter'' (PyList [PyInt 10]) ''id1''
          (Some WebSocketConnectionClosedException) 2)) = [0]
   \<and> fst (stream (demo_policy []) ''Counter'' (PyList [PyInt 10]) ''id1''
          (Some WebSocketConnectionClosedException) 2) = Inr 0
   \<and> stream_handlers (snd (stream (demo_policy []) ''Counter'' (PyList [PyInt 10]) ''id1''
          (Some WebSocketConnectionClosedException) 2)) = [0]"
  using stream_registers [of "demo_hub []" "''Counter''" "PyList [PyInt 10]" "''id1''"
          "Some WebSocketConnectionClosedException" 2]
        stream_registers [of "demo_policy []" "''Counter''" "PyList [PyInt 10]" "''id1''"
          "Some WebSocketConnectionClosedException" 2]
  by (simp add: demo_policy_def demo_hub_def start_def stop_def BaseHubConnection_init_def
      send_def connection_closed_def emit_def)

subsection \<open>The handshake\<close>

lemma evaluate_handshake_configured:
  "reconnection_handler s = Some rh \<Longrightarrow>
   (decode_handshake (protocol s) frame = None \<or> decode_handshake (protocol s) frame = Some [] \<longrightarrow>
      evaluate_handshake s frame =
        (Inr (), s\<lparr>handshake_received := True, connection_alive := True,
                   reconnection_handler := Some (rh\<lparr>reconnecting := False\<rparr>)\<rparr>))
   \<and> (decode_handshake (protocol s) frame = Some e \<and> e \<noteq> [] \<longrightarrow>
      evaluate_handshake s frame =
        (Inl (ValueError (''Handshake error '' @ e)), emit (LogError (HandshakeFailed e)) s))"
  by (auto simp: evaluate_handshake_def Let_def)

text \<open>
  C4. A connection as the constructor leaves it has no reconnection handler. On it, a
  handshake response without error sets \<^verbatim>\<open>handshake_received\<close> and
  \<^verbatim>\<open>connection_alive\<close> and then raises \<^verbatim>\<open>AttributeError\<close> at the assignment to
  \<^verbatim>\<open>reconnecting\<close>, where \<^verbatim>\<open>send\<close> tests for the missing handler first.
\<close>

theorem handshake_without_policy:
  "on_message (demo_hub []) ''{}'' 7 =
     (Inl AttributeError,
      (demo_hub [])\<lparr>last_message := 7, handshake_received := True, connection_alive := True\<rparr>)
   \<and> reconnection_handler (demo_hub []) = None
   \<and> decode_handshake (protocol (demo_hub [])) ''{}'' = None"
  by (simp add: on_message_def evaluate_handshake_def demo_hub_def start_def emit_def
      BaseHubConnection_init_def demo_protocol_def Let_def)

subsection \<open>Configuring reconnection\<close>

text \<open>
  C7. Whatever the name \<^verbatim>\<open>ReconnectionHandler\<close> is bound to, configuring \<^verbatim>\<open>raw\<close> and
  configuring \<^verbatim>\<open>exponential\<close> do the same: the two branches are the same call. In the
  module as it is the name is unbound, and both raise \<^verbatim>\<open>NameError\<close> after the
  keep-alive interval has been stored; no handler is installed.
\<close>

theorem configure_reconnection_same:
  "configure_reconnection binding s ''raw'' ka ri ma =
     configure_reconnection binding s ''exponential'' ka ri ma
   \<and> configure_reconnection module_ReconnectionHandler s ''raw'' ka ri ma =
       (Inl (NameError ''ReconnectionHandler''), s\<lparr>keep_alive_interval := ka\<rparr>)
   \<and> configure_reconnection module_ReconnectionHandler s ''exponential'' ka ri ma =
       (Inl (NameError ''ReconnectionHandler''), s\<lparr>keep_alive_interval := ka\<rparr>)"
  by (simp add: configure_reconnection_def construct_handler_def ReconnectionType_getitem_def
      module_ReconnectionHandler_def Let_def split: option.splits)

subsection \<open>Subscribing to a stream\<close>

text \<open>
  C8, as amended. \<^verbatim>\<open>subscribe\<close> raises \<^verbatim>\<open>ValueError\<close> when the subscription object is
  \<^verbatim>\<open>None\<close>. When one of the keys \<^verbatim>\<open>next\<close>, \<^verbatim>\<open>complete\<close>, \<^verbatim>\<open>error\<close> is missing it raises
  \<^verbatim>\<open>KeyError\<close> for the first missing key, the callbacks read before it being stored
  already. When the three keys are present their values are stored on the handler,
  whether callables or \<^verbatim>\<open>None\<close>, and the call returns.
\<close>

theorem subscribe_behaviour:
  "subscribe s r None =
     (Inl (ValueError '' subscribe object must be {'next': None, 'complete': None, 'error': None}''), s)
   \<and> (d ''next'' = None \<longrightarrow> subscribe s r (Some d) = (Inl (KeyError ''next''), s))
   \<and> (d ''next'' = Some n \<and> d ''complete'' = None \<longrightarrow>
        subscribe s r (Some d) =
          (Inl (KeyError ''complete''),
           s\<lparr>heap := (heap s)(r := (heap s r)\<lparr>next_callback := n\<rparr>)\<rparr>))
   \<and> (d ''next'' = Some n \<and> d ''complete'' = Some c \<and> d ''error'' = None \<longrightarrow>
        subscribe s r (Some d) =
          (Inl (KeyError ''error''),
           s\<lparr>heap := (heap s)(r := (heap s r)\<lparr>next_callback := n, complete_callback := c\<rparr>)\<rparr>))
   \<and> (d ''next'' = Some n \<and> d ''complete'' = Some c \<and> d ''error'' = Some e \<longrightarrow>
        subscribe s r (Some d) =
          (Inr (),
           s\<lparr>heap := (heap s)(r := (heap s r)\<lparr>next_callback := n, complete_callback := c,
                                              error_callback := e\<rparr>)\<rparr>))"
  by (simp add: subscribe_def set_handler_def Let_def)

theorem subscribe_behaviour_witness:
  "fst (subscribe (demo_hub []) 0
          (Some [''next'' \<mapsto> Some 1, ''complete'' \<mapsto> Some 2, ''error'' \<mapsto> Some 3])) = Inr ()
   \<and> complete_callback (heap (snd (subscribe (demo_hub []) 0
          (Some [''next'' \<mapsto> Some 1, ''complete'' \<mapsto> Some 2, ''error'' \<mapsto> Some 3]))) 0) = Some 2
   \<and> fst (subscribe (demo_hub []) 0 (Some [''next'' \<mapsto> Some 1])) = Inl (KeyError ''complete'')
   \<and> next_callback (heap (snd (subscribe (demo_hub []) 0 (Some [''next'' \<mapsto> Some 1]))) 0) = Some 1"
  using subscribe_behaviour [where s = "demo_hub []" and r = 0 and n = "Some 1" and c = "Some 2"
          and e = "Some 3"
          and d = "[''next'' \<mapsto> Some 1, ''complete'' \<mapsto> Some 2, ''error'' \<mapsto> Some 3]"]
        subscribe_behaviour [where s = "demo_hub []" and r = 0 and n = "Some 1"
          and d = "[''next'' \<mapsto> Some 1]"]
  by simp

text \<open>A \<^verbatim>\<open>next\<close> callback that is \<^verbatim>\<open>None\<close> is accepted and stored.\<close>

theorem subscribe_none_callback_counterexample:
  "fst (subscribe (demo_hub []) 0
          (Some [''next'' \<mapsto> None, ''complete'' \<mapsto> Some 1, ''error'' \<mapsto> Some 2])) = Inr ()
   \<and> next_callback (heap (snd (subscribe (demo_hub []) 0
          (Some [''next'' \<mapsto> None, ''complete'' \<mapsto> Some 1, ''error'' \<mapsto> Some 2]))) 0) = None"
  by (simp add: subscribe_def set_handler_def Let_def)

subsection \<open>The builder's send\<close>

text \<open>
  C9. With arguments that are not a list, the builder's \<^verbatim>\<open>send\<close> raises
  \<^verbatim>\<open>HubConnectionError\<close> (a \<^verbatim>\<open>ValueError\<close>) and leaves the builder and its connection as
  they were: nothing is encoded or written. With a list, on a built connection, it is
  the connection's \<^verbatim>\<open>send\<close> of an \<open>InvocationMessage\<close> with empty headers, the generated
  id, the method and the arguments; when the socket accepts the write, that message's
  frame is written.
\<close>

theorem builder_send_behaviour:
  "(\<not> is_list arguments \<longrightarrow>
      builder_send b mth arguments iid out now =
        (Inl (HubConnectionError ''Arguments of a message must be a list''), b))
   \<and> (hub b = Some h \<longrightarrow>
      builder_send b mth (PyList xs) iid out now =
        (fst (send h (InvocationMessage [] iid mth (PyList xs)) out now),
         b\<lparr>hub := Some (snd (send h (InvocationMessage [] iid mth (PyList xs)) out now))\<rparr>))
   \<and> (hub b = Some h \<and> ws h = Some sock \<longrightarrow>
      builder_send b mth (PyList xs) iid None now =
        (Inr (),
         b\<lparr>hub := Some ((emit (WsSend (encode (protocol h)
                                   (InvocationMessage [] iid mth (PyList xs)))) h)
                          \<lparr>last_message := now\<rparr>)\<rparr>))"
  by (simp add: builder_send_def send_def split: prod.splits)

theorem builder_send_behaviour_witness:
  "builder_send demo_builder ''Broadcast'' (PyStr ''hi'') ''id1'' None 1 =
     (Inl (HubConnectionError ''Arguments of a message must be a list''), demo_builder)
   \<and> fst (builder_send demo_builder ''Broadcast'' (PyList [PyStr ''hi'']) ''id1'' None 1) = Inr ()
   \<and> map_option trace (hub (snd (builder_send demo_builder ''Broadcast''
                                     (PyList [PyStr ''hi'']) ''id1'' None 1))) =
       Some (trace (demo_hub []) @ [WsSend ''frame''])"
  using builder_send_behaviour [where b = demo_builder and mth = "''Broadcast''"
          and arguments = "PyStr ''hi''" and iid = "''id1''" and out = None and now = 1]
        builder_send_behaviour [where b = demo_builder and mth = "''Broadcast''"
          and xs = "[PyStr ''hi'']" and iid = "''id1''" and now = 1 and h = "demo_hub []"
          and sock = "''ws://localhost:62342/chathub''"]
  by (simp add: demo_builder_def demo_hub_def start_def BaseHubConnection_init_def
      demo_protocol_def emit_def)

subsection \<open>Stream notifications\<close>

lemma fire_heap [simp]:
  "heap (snd (fire cb_of a hs s)) = heap s \<and> stream_handlers (snd (fire cb_of a hs s)) = stream_handlers s"
  by (induction hs arbitrary: s) (auto split: option.splits)

lemma unmatched_dispatch:
  assumes "\<forall>h\<in>set (stream_handlers s). invocation_id (heap s h) \<noteq> iid"
  shows "dispatch s (StreamItemMessage iid item) = (Inr Continue, emit (LogWarn (UnhandledStream iid)) s)"
    and "dispatch s (CancelInvocationMessage iid) = (Inr Continue, emit (LogWarn (UnhandledStream iid)) s)"
proof -
  have f: "filter (\<lambda>h. invocation_id (heap s h) = iid) (stream_handlers s) = []"
    using assms by (simp add: filter_empty_conv)
  have g: "filter (\<lambda>h. invocation_id (heap s h) \<noteq> iid) (stream_handlers s) = stream_handlers s"
    using assms by (simp add: filter_id_conv)
  show "dispatch s (StreamItemMessage iid item) = (Inr Continue, emit (LogWarn (UnhandledStream iid)) s)"
    by (simp add: f)
  show "dispatch s (CancelInvocationMessage iid) = (Inr Continue, emit (LogWarn (UnhandledStream iid)) s)"
    by (simp add: f g unregister_def emit_def)
qed

lemma completion_dispatch:
  assumes "\<forall>h\<in>set (stream_handlers s). invocation_id (heap s h) = iid \<longrightarrow> complete_callback (heap s h) \<noteq> None"
  shows "dispatch s (CompletionMessage iid res e) =
     (Inr Continue,
      s\<lparr>trace := trace s @ map (\<lambda>h. Call (the (complete_callback (heap s h))) (ArgMessage (CompletionMessage iid res e)))
                              (filter (\<lambda>h. invocation_id (heap s h) = iid) (stream_handlers s)),
        stream_handlers := filter (\<lambda>h. invocation_id (heap s h) \<noteq> iid) (stream_handlers s)\<rparr>)"
proof -
  have "\<forall>h\<in>set (filter (\<lambda>h. invocation_id (heap s h) = iid) (stream_handlers s)). complete_callback (heap s h) \<noteq> None"
    using assms by simp
  from fire_ok [OF this] show ?thesis
    by (simp add: unregister_def)
qed

lemma cancel_dispatch:
  assumes "\<forall>h\<in>set (stream_handlers s). invocation_id (heap s h) = iid \<longrightarrow> error_callback (heap s h) \<noteq> None"
    and "\<exists>h\<in>set (stream_handlers s). invocation_id (heap s h) = iid"
  shows "dispatch s (CancelInvocationMessage iid) =
     (Inr Continue,
      s\<lparr>trace := trace s @ map (\<lambda>h. Call (the (error_callback (heap s h))) (ArgMessage (CancelInvocationMessage iid)))
                              (filter (\<lambda>h. invocation_id (heap s h) = iid) (stream_handlers s)),
        stream_handlers := filter (\<lambda>h. invocation_id (heap s h) \<noteq> iid) (stream_handlers s)\<rparr>)"
proof -
  have a: "\<forall>h\<in>set (filter (\<lambda>h. invocation_id (heap s h) = iid) (stream_handlers s)). error_callback (heap s h) \<noteq> None"
    using assms(1) by simp
  have ne: "filter (\<lambda>h. invocation_id (heap s h) = iid) (stream_handlers s) \<noteq> []"
    using assms(2) by (simp add: filter_empty_conv)
  from fire_ok [OF a] ne show ?thesis
    by (simp add: unregister_def)
qed

lemma stream_state:
  assumes "stream s ev ps iid out now = (x, s1)"
  shows "stream_handlers s1 = stream_handlers s @ [next_ref s]"
    and "heap s1 = (heap s)(next_ref s := StreamHandler_init ev iid)"
    and "x = Inr r \<Longrightarrow> r = next_ref s"
proof -
  let ?s2 = "s\<lparr>heap := (heap s)(next_ref s := StreamHandler_init ev iid),
               next_ref := Suc (next_ref s),
               stream_handlers := stream_handlers s @ [next_ref s]\<rparr>"
  let ?r = "send ?s2 (StreamInvocationMessage [] iid ev ps) out now"
  have st: "stream s ev ps iid out now =
      (case ?r of (Inl ex, s3) \<Rightarrow> (Inl ex, s3) | (Inr u, s3) \<Rightarrow> (Inr (next_ref s), s3))"
    by (simp add: stream_def Let_def)
  have s1: "s1 = snd ?r"
    using assms unfolding st by (cases ?r) (auto split: sum.splits)
  have k: "stream_handlers (snd ?r) = stream_handlers ?s2 \<and> heap (snd ?r) = heap ?s2"
    using send_keeps_tracker [of ?s2] by blast
  show "stream_handlers s1 = stream_handlers s @ [next_ref s]" using s1 k by simp
  show "heap s1 = (heap s)(next_ref s := StreamHandler_init ev iid)" using s1 k by simp
  show "x = Inr r \<Longrightarrow> r = next_ref s"
    using assms unfolding st by (cases ?r) (auto split: sum.splits)
qed

lemma subscribe_ok:
  assumes "subscribe s r (Some d) = (Inr (), s')"
  shows "\<exists>n c e. d ''next'' = Some n \<and> d ''complete'' = Some c \<and> d ''error'' = Some e
     \<and> s' = s\<lparr>heap := (heap s)(r := (heap s r)\<lparr>next_callback := n, complete_callback := c,
                                                error_callback := e\<rparr>)\<rparr>"
  using assms
  by (auto simp: subscribe_def set_handler_def Let_def split: option.splits)

text \<open>
  Every reference in the tracker is below \<open>next_ref\<close>, so the reference \<^verbatim>\<open>stream\<close>
  allocates is new to the tracker. This holds of a connection as constructed and is
  kept by \<^verbatim>\<open>stream\<close> and by the dispatch of any message.
\<close>

lemma fire_next_ref [simp]: "next_ref (snd (fire cb_of a hs s)) = next_ref s"
  by (induction hs arbitrary: s) (auto split: option.splits)

lemma allocated_init:
  "\<forall>h\<in>set (stream_handlers (BaseHubConnection_init u p)). h < next_ref (BaseHubConnection_init u p)"
  by (simp add: BaseHubConnection_init_def)

lemma allocated_stream:
  assumes "\<forall>h\<in>set (stream_handlers s). h < next_ref s"
  shows "\<forall>h\<in>set (stream_handlers (snd (stream s ev ps iid out now))).
           h < next_ref (snd (stream s ev ps iid out now))"
proof -
  let ?s2 = "s\<lparr>heap := (heap s)(next_ref s := StreamHandler_init ev iid),
               next_ref := Suc (next_ref s),
               stream_handlers := stream_handlers s @ [next_ref s]\<rparr>"
  let ?r = "send ?s2 (StreamInvocationMessage [] iid ev ps) out now"
  have "snd (stream s ev ps iid out now) = snd ?r"
    by (cases ?r) (auto simp: stream_def Let_def split: sum.splits)
  moreover have "stream_handlers (snd ?r) = stream_handlers ?s2" "next_ref (snd ?r) = next_ref ?s2"
    using send_keeps_tracker [of ?s2] by blast+
  ultimately show ?thesis using assms by (auto simp: less_Suc_eq)
qed

lemma fire_result:
  assumes "fire cb_of a hs s = (x, s')"
  shows "stream_handlers s' = stream_handlers s \<and> next_ref s' = next_ref s"
  using fire_heap [of cb_of a hs s] fire_next_ref [of cb_of a hs s] assms by simp

lemma allocated_dispatch:
  assumes "\<forall>h\<in>set (stream_handlers s). h < next_ref s"
  shows "\<forall>h\<in>set (stream_handlers (snd (dispatch s m))). h < next_ref (snd (dispatch s m))"
  using assms
  by (cases m)
     (auto simp: unregister_def Let_def invoke_all_eq split: prod.splits sum.splits if_splits
           dest!: fire_result)

lemmas demo_defs = demo_subscribed_def demo_callbacks_def demo_streaming_def demo_connected_def
  demo_policy_def demo_hub_def demo_protocol_def BaseHubConnection_init_def StreamHandler_init_def
  start_def emit_def on_message_def evaluate_handshake_def stream_def send_def subscribe_def
  set_handler_def unregister_def Let_def

text \<open>
  C2, as amended. Let \<^verbatim>\<open>stream\<close> be called with an invocation id that no tracked
  handler carries, on a connection whose tracked handlers are allocated objects, and
  let the returned handler be subscribed with a \<^verbatim>\<open>complete\<close> callback \<open>c\<close>. Then a
  \<open>CompletionMessage\<close> with that id calls \<open>c\<close> once, with the message, and removes the
  handler from the tracker, which is again what it was before \<^verbatim>\<open>stream\<close>; a
  \<open>StreamItemMessage\<close> or \<open>CancelInvocationMessage\<close> with the id after that matches no
  handler: a warning is logged, nothing is called, and the loop goes on.
\<close>

theorem stream_completion:
  assumes fresh: "\<forall>h\<in>set (stream_handlers s). invocation_id (heap s h) \<noteq> iid"
      and alloc: "\<forall>h\<in>set (stream_handlers s). h < next_ref s"
      and st: "stream s ev ps iid out now = (Inr r, s1)"
      and sub: "subscribe s1 r (Some d) = (Inr (), s2)"
      and cb: "d ''complete'' = Some (Some c)"
      and dp: "dispatch s2 (CompletionMessage iid res e) = (ro, s3)"
  shows "ro = Inr Continue
     \<and> trace s3 = trace s2 @ [Call c (ArgMessage (CompletionMessage iid res e))]
     \<and> stream_handlers s2 = stream_handlers s @ [r]
     \<and> stream_handlers s3 = stream_handlers s
     \<and> r \<notin> set (stream_handlers s3)
     \<and> dispatch s3 (StreamItemMessage iid item) =
         (Inr Continue, emit (LogWarn (UnhandledStream iid)) s3)
     \<and> dispatch s3 (CancelInvocationMessage iid) =
         (Inr Continue, emit (LogWarn (UnhandledStream iid)) s3)"
proof -
  have r: "r = next_ref s" using stream_state(3) [OF st] by simp
  have t1: "stream_handlers s1 = stream_handlers s @ [r]"
    using stream_state(1) [OF st] r by simp
  have h1: "heap s1 = (heap s)(r := StreamHandler_init ev iid)"
    using stream_state(2) [OF st] r by simp
  from subscribe_ok [OF sub] cb obtain n e' where
    s2: "s2 = s1\<lparr>heap := (heap s1)(r := (heap s1 r)\<lparr>next_callback := n,
                  complete_callback := Some c, error_callback := e'\<rparr>)\<rparr>"
    by auto
  have t2: "stream_handlers s2 = stream_handlers s @ [r]" using s2 t1 by simp
  have notin: "r \<notin> set (stream_handlers s)" using alloc r by auto
  have old: "\<And>h. h \<in> set (stream_handlers s) \<Longrightarrow> heap s2 h = heap s h"
    using s2 h1 notin by auto
  have new: "invocation_id (heap s2 r) = iid" "complete_callback (heap s2 r) = Some c"
    using s2 h1 by (simp_all add: StreamHandler_init_def)
  have oldid: "\<And>h. h \<in> set (stream_handlers s) \<Longrightarrow> invocation_id (heap s2 h) \<noteq> iid"
    using old fresh by simp
  have f1: "filter (\<lambda>h. invocation_id (heap s2 h) = iid) (stream_handlers s2) = [r]"
    using t2 new oldid by (simp add: filter_empty_conv)
  have f2: "filter (\<lambda>h. invocation_id (heap s2 h) \<noteq> iid) (stream_handlers s2) = stream_handlers s"
    using t2 new oldid by (simp add: filter_id_conv)
  have pre: "\<forall>h\<in>set (stream_handlers s2). invocation_id (heap s2 h) = iid \<longrightarrow>
               complete_callback (heap s2 h) \<noteq> None"
    using t2 new oldid by auto
  from completion_dispatch [OF pre, of res e] dp f1 f2 new
  have ro: "ro = Inr Continue"
    and s3: "s3 = s2\<lparr>trace := trace s2 @ [Call c (ArgMessage (CompletionMessage iid res e))],
                     stream_handlers := stream_handlers s\<rparr>"
    by simp_all
  have t3: "stream_handlers s3 = stream_handlers s" using s3 by simp
  have h3: "heap s3 = heap s2" using s3 by simp
  have none: "\<forall>h\<in>set (stream_handlers s3). invocation_id (heap s3 h) \<noteq> iid"
    using t3 h3 oldid by simp
  show ?thesis
    using ro s3 t2 t3 notin unmatched_dispatch [OF none] by simp
qed

theorem stream_completion_witness:
  "fst (dispatch demo_subscribed (CompletionMessage ''id1'' PyNone None)) = Inr Continue
   \<and> trace (snd (dispatch demo_subscribed (CompletionMessage ''id1'' PyNone None))) =
       trace demo_subscribed @ [Call 2 (ArgMessage (CompletionMessage ''id1'' PyNone None))]
   \<and> stream_handlers demo_subscribed = [0]
   \<and> stream_handlers (snd (dispatch demo_subscribed (CompletionMessage ''id1'' PyNone None))) = []
   \<and> fst (dispatch (snd (dispatch demo_subscribed (CompletionMessage ''id1'' PyNone None)))
             (StreamItemMessage ''id1'' (PyInt 1))) = Inr Continue
   \<and> trace (snd (dispatch (snd (dispatch demo_subscribed (CompletionMessage ''id1'' PyNone None)))
             (CancelInvocationMessage ''id1''))) =
       trace demo_subscribed @ [Call 2 (ArgMessage (CompletionMessage ''id1'' PyNone None)),
                                LogWarn (UnhandledStream ''id1'')]"
proof -
  let ?m = "CompletionMessage ''id1'' PyNone None"
  have a: "\<forall>h\<in>set (stream_handlers (demo_connected [])). invocation_id (heap (demo_connected []) h) \<noteq> ''id1''"
    by (simp add: demo_defs)
  have b: "\<forall>h\<in>set (stream_handlers (demo_connected [])). h < next_ref (demo_connected [])"
    by (simp add: demo_defs)
  have c: "stream (demo_connected []) ''Counter'' (PyList [PyInt 10]) ''id1'' None 2 = (Inr 0, demo_streaming [])"
    by (simp add: demo_defs)
  have d: "subscribe (demo_streaming []) 0 (Some demo_callbacks) = (Inr (), demo_subscribed)"
    by (simp add: demo_defs)
  have e: "demo_callbacks ''complete'' = Some (Some 2)"
    by (simp add: demo_callbacks_def)
  obtain ro s3 where f: "dispatch demo_subscribed ?m = (ro, s3)"
    by (cases "dispatch demo_subscribed ?m")
  have g: "stream_handlers (demo_connected []) = []"
    by (simp add: demo_defs)
  from stream_completion [OF a b c d e f, of "PyInt 1"] f g
  show ?thesis by (simp del: dispatch.simps)
qed

text \<open>
  Without \<^verbatim>\<open>subscribe\<close> the handler's \<^verbatim>\<open>complete_callback\<close> is \<^verbatim>\<open>None\<close>: the completion
  raises \<^verbatim>\<open>TypeError\<close>, calls nothing and leaves the handler tracked.
\<close>

theorem stream_completion_unsubscribed_counterexample:
  "fst (stream (demo_connected []) ''Counter'' (PyList [PyInt 10]) ''id1'' None 2) = Inr 0
   \<and> snd (stream (demo_connected []) ''Counter'' (PyList [PyInt 10]) ''id1'' None 2) = demo_streaming []
   \<and> fst (dispatch (demo_streaming []) (CompletionMessage ''id1'' PyNone None)) = Inl TypeError
   \<and> stream_handlers (snd (dispatch (demo_streaming []) (CompletionMessage ''id1'' PyNone None))) = [0]
   \<and> trace (snd (dispatch (demo_streaming []) (CompletionMessage ''id1'' PyNone None))) =
       trace (demo_streaming [])"
  by (simp add: demo_defs)

text \<open>
  C5, as amended. When every tracked handler with the message's invocation id has an
  \<^verbatim>\<open>error\<close> callback, and there is such a handler, a \<open>CancelInvocationMessage\<close> calls
  the \<^verbatim>\<open>error\<close> callback of each of them once, in tracker order, with the message (one
  call when one handler matches), removes them from the tracker and changes nothing
  else; a second cancel with the same id only logs the unmatched warning.
\<close>

theorem cancel_invocation:
  assumes sub: "\<forall>h\<in>set (stream_handlers s). invocation_id (heap s h) = iid \<longrightarrow>
                  error_callback (heap s h) \<noteq> None"
      and tracked: "\<exists>h\<in>set (stream_handlers s). invocation_id (heap s h) = iid"
      and dp: "dispatch s (CancelInvocationMessage iid) = (ro, s1)"
  shows "ro = Inr Continue
     \<and> trace s1 = trace s @
         map (\<lambda>h. Call (the (error_callback (heap s h))) (ArgMessage (CancelInvocationMessage iid)))
           (filter (\<lambda>h. invocation_id (heap s h) = iid) (stream_handlers s))
     \<and> (\<forall>h c. filter (\<lambda>h. invocation_id (heap s h) = iid) (stream_handlers s) = [h]
              \<and> error_callback (heap s h) = Some c \<longrightarrow>
            trace s1 = trace s @ [Call c (ArgMessage (CancelInvocationMessage iid))])
     \<and> stream_handlers s1 = filter (\<lambda>h. invocation_id (heap s h) \<noteq> iid) (stream_handlers s)
     \<and> heap s1 = heap s
     \<and> dispatch s1 (CancelInvocationMessage iid) =
         (Inr Continue, emit (LogWarn (UnhandledStream iid)) s1)"
proof -
  from cancel_dispatch [OF sub tracked] dp
  have ro: "ro = Inr Continue"
    and s1: "s1 = s\<lparr>trace := trace s @
         map (\<lambda>h. Call (the (error_callback (heap s h))) (ArgMessage (CancelInvocationMessage iid)))
           (filter (\<lambda>h. invocation_id (heap s h) = iid) (stream_handlers s)),
        stream_handlers := filter (\<lambda>h. invocation_id (heap s h) \<noteq> iid) (stream_handlers s)\<rparr>"
    by simp_all
  have none: "\<forall>h\<in>set (stream_handlers s1). invocation_id (heap s1 h) \<noteq> iid"
    using s1 by simp
  show ?thesis
    using ro s1 unmatched_dispatch(2) [OF none] by simp
qed

theorem cancel_invocation_witness:
  "fst (dispatch demo_subscribed (CancelInvocationMessage ''id1'')) = Inr Continue
   \<and> trace (snd (dispatch demo_subscribed (CancelInvocationMessage ''id1''))) =
       trace demo_subscribed @ [Call 3 (ArgMessage (CancelInvocationMessage ''id1''))]
   \<and> stream_handlers (snd (dispatch demo_subscribed (CancelInvocationMessage ''id1''))) = []
   \<and> trace (snd (dispatch (snd (dispatch demo_subscribed (CancelInvocationMessage ''id1'')))
                     (CancelInvocationMessage ''id1''))) =
       trace demo_subscribed @ [Call 3 (ArgMessage (CancelInvocationMessage ''id1'')),
                                LogWarn (UnhandledStream ''id1'')]"
proof -
  let ?m = "CancelInvocationMessage ''id1''"
  have t: "stream_handlers demo_subscribed = [0]"
    and i: "invocation_id (heap demo_subscribed 0) = ''id1''"
    and c: "error_callback (heap demo_subscribed 0) = Some 3"
    by (simp_all add: demo_defs)
  have a: "\<forall>h\<in>set (stream_handlers demo_subscribed).
             invocation_id (heap demo_subscribed h) = ''id1'' \<longrightarrow>
             error_callback (heap demo_subscribed h) \<noteq> None"
    using t c by simp
  have b: "\<exists>h\<in>set (stream_handlers demo_subscribed). invocation_id (heap demo_subscribed h) = ''id1''"
    using t i by simp
  obtain ro s1 where f: "dispatch demo_subscribed ?m = (ro, s1)"
    by (cases "dispatch demo_subscribed ?m")
  from cancel_invocation [OF a b f] f t i c
  show ?thesis by (simp del: dispatch.simps)
qed

text \<open>
  A tracked handler that was never subscribed: the cancel raises \<^verbatim>\<open>TypeError\<close>, calls
  nothing and leaves the handler tracked.
\<close>

theorem cancel_unsubscribed_counterexample:
  "stream_handlers (demo_streaming []) = [0]
   \<and> invocation_id (heap (demo_streaming []) 0) = ''id1''
   \<and> fst (dispatch (demo_streaming []) (CancelInvocationMessage ''id1'')) = Inl TypeError
   \<and> stream_handlers (snd (dispatch (demo_streaming []) (CancelInvocationMessage ''id1''))) = [0]
   \<and> trace (snd (dispatch (demo_streaming []) (CancelInvocationMessage ''id1''))) =
       trace (demo_streaming [])"
  by (simp add: demo_defs)

subsection \<open>The dispatch loop\<close>

lemma dispatch_close [simp]:
  "dispatch s (CloseMessage e) = (Inr Return, (emit (LogInfo CloseReceived) s)\<lparr>connection_alive := False\<rparr>)"
  by simp

lemma dispatch_return:
  "dispatch s m = (Inr Return, s1) \<Longrightarrow> (\<exists>e. m = CloseMessage e) \<and> \<not> connection_alive s1"
  by (cases m) (auto simp: Let_def split: prod.splits sum.splits)

lemma loop_append:
  "\<forall>m\<in>set xs. \<forall>e. m \<noteq> CloseMessage e \<Longrightarrow>
   dispatch_loop s (xs @ ys) =
     (case dispatch_loop s xs of (Inl ex, s1) \<Rightarrow> (Inl ex, s1) | (Inr u, s1) \<Rightarrow> dispatch_loop s1 ys)"
proof (induction xs arbitrary: s)
  case Nil
  show ?case by simp
next
  case (Cons m xs)
  obtain x s1 where d: "dispatch s m = (x, s1)" by (cases "dispatch s m")
  show ?case
  proof (cases x)
    case (Inl ex)
    with d show ?thesis by simp
  next
    case (Inr c)
    show ?thesis
    proof (cases c)
      case Continue
      with Inr d Cons show ?thesis by simp
    next
      case Return
      with Inr d dispatch_return [of s m s1] Cons.prems show ?thesis by auto
    qed
  qed
qed

lemma loop_stops_at_close:
  "dispatch_loop s (xs @ CloseMessage e # ys) = dispatch_loop s (xs @ [CloseMessage e])"
proof (induction xs arbitrary: s)
  case Nil
  show ?case by simp
next
  case (Cons m xs)
  then show ?case
    by (auto split: prod.splits sum.splits ctl.splits)
qed

lemma loop_alive:
  "CloseMessage e \<in> set msgs \<Longrightarrow> dispatch_loop s msgs = (Inr (), s1) \<Longrightarrow> \<not> connection_alive s1"
proof (induction msgs arbitrary: s)
  case Nil
  then show ?case by simp
next
  case (Cons m ms)
  obtain x s2 where d: "dispatch s m = (x, s2)" by (cases "dispatch s m")
  show ?case
  proof (cases x)
    case (Inl ex)
    with d Cons.prems show ?thesis by simp
  next
    case (Inr c)
    show ?thesis
    proof (cases c)
      case Return
      with Inr d Cons.prems dispatch_return [of s m s2] show ?thesis by simp
    next
      case Continue
      with Inr d have "m \<noteq> CloseMessage e" by auto
      with Cons.prems have "CloseMessage e \<in> set ms" by simp
      moreover from Continue Inr d Cons.prems have "dispatch_loop s2 ms = (Inr (), s1)" by simp
      ultimately show ?thesis using Cons.IH by blast
    qed
  qed
qed

lemma after_dispatch_simps [simp]:
  "after_dispatch s [] = s"
  "after_dispatch s (m # ms) = after_dispatch (snd (dispatch s m)) ms"
  by (simp_all add: after_dispatch_def)

lemma loop_unfold_at:
  "j < length msgs \<Longrightarrow>
   \<forall>i<j. fst (dispatch (after_dispatch s (take i msgs)) (msgs ! i)) = Inr Continue \<Longrightarrow>
   dispatch_loop s msgs =
     (case dispatch (after_dispatch s (take j msgs)) (msgs ! j) of
        (Inl ex, s1) \<Rightarrow> (Inl ex, s1)
      | (Inr Return, s1) \<Rightarrow> (Inr (), s1)
      | (Inr Continue, s1) \<Rightarrow> dispatch_loop s1 (drop (Suc j) msgs))"
proof (induction msgs arbitrary: s j)
  case Nil
  then show ?case by simp
next
  case (Cons m ms)
  show ?case
  proof (cases j)
    case 0
    then show ?thesis by (auto split: prod.splits sum.splits ctl.splits)
  next
    case (Suc j')
    from Cons.prems(2) Suc have first: "fst (dispatch s m) = Inr Continue"
      by (auto dest: spec [of _ 0])
    then have step: "dispatch_loop s (m # ms) = dispatch_loop (snd (dispatch s m)) ms"
      by (cases "dispatch s m") simp
    have len: "j' < length ms" using Cons.prems(1) Suc by simp
    have rest: "\<forall>i<j'. fst (dispatch (after_dispatch (snd (dispatch s m)) (take i ms)) (ms ! i)) = Inr Continue"
    proof (intro allI impI)
      fix i assume "i < j'"
      then have "Suc i < j" using Suc by simp
      with Cons.prems(2) have "fst (dispatch (after_dispatch s (take (Suc i) (m # ms))) ((m # ms) ! Suc i)) = Inr Continue"
        by blast
      then show "fst (dispatch (after_dispatch (snd (dispatch s m)) (take i ms)) (ms ! i)) = Inr Continue"
        by simp
    qed
    from Cons.IH [OF len rest] step Suc show ?thesis
      by (auto split: prod.splits sum.splits ctl.splits)
  qed
qed

lemma loop_normal:
  "dispatch_loop s msgs = (Inr (), s1) \<Longrightarrow> k < length msgs \<Longrightarrow> msgs ! k = CloseMessage e \<Longrightarrow>
   \<forall>i<k. \<forall>e'. msgs ! i \<noteq> CloseMessage e' \<Longrightarrow>
   s1 = after_dispatch s (take (Suc k) msgs)"
proof (induction msgs arbitrary: s k)
  case Nil
  then show ?case by simp
next
  case (Cons m ms)
  show ?case
  proof (cases k)
    case 0
    with Cons.prems show ?thesis by simp
  next
    case (Suc k')
    from Cons.prems(4) Suc have notclose: "\<forall>e'. m \<noteq> CloseMessage e'"
      by (auto dest: spec [of _ 0])
    obtain x s2 where d: "dispatch s m = (x, s2)" by (cases "dispatch s m")
    have cont: "x = Inr Continue"
    proof (cases x)
      case (Inl ex)
      with d Cons.prems(1) show ?thesis by simp
    next
      case (Inr c)
      show ?thesis
      proof (cases c)
        case Continue
        with Inr show ?thesis by simp
      next
        case Return
        with Inr d dispatch_return [of s m s2] notclose show ?thesis by auto
      qed
    qed
    with d Cons.prems(1) have l: "dispatch_loop s2 ms = (Inr (), s1)" by simp
    have k': "k' < length ms" "ms ! k' = CloseMessage e"
      using Cons.prems(2,3) Suc by simp_all
    have nc: "\<forall>i<k'. \<forall>e'. ms ! i \<noteq> CloseMessage e'"
    proof (intro allI impI)
      fix i e' assume "i < k'"
      then have "Suc i < k" using Suc by simp
      with Cons.prems(4) have "(m # ms) ! Suc i \<noteq> CloseMessage e'" by blast
      then show "ms ! i \<noteq> CloseMessage e'" by simp
    qed
    from Cons.IH [OF l k' nc] d Suc show ?thesis by simp
  qed
qed

text \<open>
  C6, as amended. Let the batch hold a \<open>CloseMessage\<close> at position \<open>k\<close>. The loop does
  on the batch what it does on its first \<open>k + 1\<close> messages: nothing after position \<open>k\<close>
  is dispatched. When the loop returns without an exception, \<^verbatim>\<open>connection_alive\<close> is
  false. Messages are dispatched in decode order: at every position \<open>j \<le> k\<close> that the
  loop reaches (the dispatch of each earlier message having gone on to the next), the
  message at \<open>j\<close> is dispatched in the state that dispatching the messages before it,
  in list order, has left, and its outcome decides how the loop goes on; when \<open>k\<close> is the
  first close message and the loop returns without an exception, the state it leaves
  is the state after dispatching the messages up to \<open>k\<close> in list order. Also, for
  every \<open>j \<le> k\<close> with no close message before \<open>j\<close>, the loop on the batch is the loop
  on the first \<open>j\<close> messages followed, unless that raised, by the loop on the rest.
  \<^verbatim>\<open>on_message\<close>, once the handshake is received, is this loop on the decoded frame.
\<close>

theorem close_truncates:
  assumes k: "k < length msgs" and c: "msgs ! k = CloseMessage e"
  shows "dispatch_loop s msgs = dispatch_loop s (take (Suc k) msgs)
     \<and> (fst (dispatch_loop s msgs) = Inr () \<longrightarrow> \<not> connection_alive (snd (dispatch_loop s msgs)))
     \<and> (\<forall>j\<le>k. (\<forall>i<j. fst (dispatch (after_dispatch s (take i msgs)) (msgs ! i)) = Inr Continue) \<longrightarrow>
          dispatch_loop s msgs =
            (case dispatch (after_dispatch s (take j msgs)) (msgs ! j) of
               (Inl ex, s1) \<Rightarrow> (Inl ex, s1)
             | (Inr Return, s1) \<Rightarrow> (Inr (), s1)
             | (Inr Continue, s1) \<Rightarrow> dispatch_loop s1 (drop (Suc j) msgs)))
     \<and> ((\<forall>i<k. \<forall>e'. msgs ! i \<noteq> CloseMessage e') \<and> fst (dispatch_loop s msgs) = Inr () \<longrightarrow>
          snd (dispatch_loop s msgs) = after_dispatch s (take (Suc k) msgs))
     \<and> (\<forall>j\<le>k. (\<forall>i<j. \<forall>e'. msgs ! i \<noteq> CloseMessage e') \<longrightarrow>
          dispatch_loop s msgs =
            (case dispatch_loop s (take j msgs) of
               (Inl ex, s1) \<Rightarrow> (Inl ex, s1)
             | (Inr u, s1) \<Rightarrow> dispatch_loop s1 (drop j msgs)))
     \<and> (handshake_received s \<longrightarrow>
          on_message s frame now =
            dispatch_loop (s\<lparr>last_message := now\<rparr>) (parse_messages (protocol s) frame))"
proof -
  have split: "msgs = take k msgs @ CloseMessage e # drop (Suc k) msgs"
    using k c by (metis id_take_nth_drop)
  have tk: "take (Suc k) msgs = take k msgs @ [CloseMessage e]"
    using k c by (simp add: take_Suc_conv_app_nth)
  have A: "dispatch_loop s msgs = dispatch_loop s (take (Suc k) msgs)"
    using loop_stops_at_close [of s "take k msgs" e "drop (Suc k) msgs"] split tk by simp
  have mem: "CloseMessage e \<in> set msgs" using k c by (metis nth_mem)
  have B: "fst (dispatch_loop s msgs) = Inr () \<longrightarrow> \<not> connection_alive (snd (dispatch_loop s msgs))"
    using loop_alive [OF mem, of s "snd (dispatch_loop s msgs)"]
    by (cases "dispatch_loop s msgs") auto
  have E: "\<forall>j\<le>k. (\<forall>i<j. fst (dispatch (after_dispatch s (take i msgs)) (msgs ! i)) = Inr Continue) \<longrightarrow>
          dispatch_loop s msgs =
            (case dispatch (after_dispatch s (take j msgs)) (msgs ! j) of
               (Inl ex, s1) \<Rightarrow> (Inl ex, s1)
             | (Inr Return, s1) \<Rightarrow> (Inr (), s1)
             | (Inr Continue, s1) \<Rightarrow> dispatch_loop s1 (drop (Suc j) msgs))"
  proof (intro allI impI)
    fix j assume "j \<le> k"
      and h: "\<forall>i<j. fst (dispatch (after_dispatch s (take i msgs)) (msgs ! i)) = Inr Continue"
    then have "j < length msgs" using k by simp
    from loop_unfold_at [OF this h]
    show "dispatch_loop s msgs =
            (case dispatch (after_dispatch s (take j msgs)) (msgs ! j) of
               (Inl ex, s1) \<Rightarrow> (Inl ex, s1)
             | (Inr Return, s1) \<Rightarrow> (Inr (), s1)
             | (Inr Continue, s1) \<Rightarrow> dispatch_loop s1 (drop (Suc j) msgs))" .
  qed
  have F: "(\<forall>i<k. \<forall>e'. msgs ! i \<noteq> CloseMessage e') \<and> fst (dispatch_loop s msgs) = Inr () \<longrightarrow>
          snd (dispatch_loop s msgs) = after_dispatch s (take (Suc k) msgs)"
  proof (intro impI, elim conjE)
    assume nc: "\<forall>i<k. \<forall>e'. msgs ! i \<noteq> CloseMessage e'" and ok: "fst (dispatch_loop s msgs) = Inr ()"
    from ok have "dispatch_loop s msgs = (Inr (), snd (dispatch_loop s msgs))"
      by (cases "dispatch_loop s msgs") simp
    from loop_normal [OF this k c nc]
    show "snd (dispatch_loop s msgs) = after_dispatch s (take (Suc k) msgs)" .
  qed
  have C: "\<forall>j\<le>k. (\<forall>i<j. \<forall>e'. msgs ! i \<noteq> CloseMessage e') \<longrightarrow>
          dispatch_loop s msgs =
            (case dispatch_loop s (take j msgs) of
               (Inl ex, s1) \<Rightarrow> (Inl ex, s1)
             | (Inr u, s1) \<Rightarrow> dispatch_loop s1 (drop j msgs))"
  proof (intro allI impI)
    fix j assume j: "j \<le> k" and nc: "\<forall>i<j. \<forall>e'. msgs ! i \<noteq> CloseMessage e'"
    have "\<forall>m\<in>set (take j msgs). \<forall>e'. m \<noteq> CloseMessage e'"
    proof
      fix m assume "m \<in> set (take j msgs)"
      then obtain i where "i < length (take j msgs)" "take j msgs ! i = m"
        by (auto simp: in_set_conv_nth)
      then show "\<forall>e'. m \<noteq> CloseMessage e'" using nc by auto
    qed
    from loop_append [OF this, of s "drop j msgs"]
    show "dispatch_loop s msgs =
            (case dispatch_loop s (take j msgs) of
               (Inl ex, s1) \<Rightarrow> (Inl ex, s1)
             | (Inr u, s1) \<Rightarrow> dispatch_loop s1 (drop j msgs))"
      by simp
  qed
  have D: "handshake_received s \<longrightarrow>
          on_message s frame now =
            dispatch_loop (s\<lparr>last_message := now\<rparr>) (parse_messages (protocol s) frame)"
    by (simp add: on_message_def Let_def)
  show ?thesis using A B E F C D by blast
qed

theorem close_truncates_witness:
  "fst (dispatch_loop (demo_listening []) demo_ordered_batch) = Inr ()
   \<and> trace (snd (dispatch_loop (demo_listening []) demo_ordered_batch)) =
       trace (demo_listening []) @
         [Call 1 (ArgValue (PyList [PyStr ''first''])),
          Call 1 (ArgValue (PyList [PyStr ''second''])),
          LogInfo CloseReceived]
   \<and> connection_alive (demo_listening [])
   \<and> connection_alive (snd (dispatch_loop (demo_listening []) demo_ordered_batch)) = False
   \<and> snd (on_message (demo_listening demo_ordered_batch) ''frame'' 3) =
       after_dispatch ((demo_listening demo_ordered_batch)\<lparr>last_message := 3\<rparr>)
         (take 3 demo_ordered_batch)"
proof -
  have k: "2 < length demo_ordered_batch" and c: "demo_ordered_batch ! 2 = CloseMessage None"
    by (simp_all add: demo_ordered_batch_def)
  have nc: "\<forall>i<2. \<forall>e'. demo_ordered_batch ! i \<noteq> CloseMessage e'"
    by (simp add: demo_ordered_batch_def less_Suc_eq numeral_2_eq_2 nth_Cons')
  have al: "connection_alive (demo_listening [])"
    by (simp add: demo_listening_def register_handler_def demo_defs)
  have hs: "handshake_received (demo_listening demo_ordered_batch)"
    and pm: "parse_messages (protocol (demo_listening demo_ordered_batch)) ''frame'' = demo_ordered_batch"
    by (simp_all add: demo_listening_def register_handler_def demo_defs)
  have hd: "handlers (demo_listening []) = [(''ReceiveMessage'', 1)]"
    by (simp add: demo_listening_def register_handler_def demo_defs)
  have ok: "\<And>s. fst (dispatch_loop s demo_ordered_batch) = Inr ()"
    by (simp add: demo_ordered_batch_def Let_def)
  have tr: "trace (after_dispatch (demo_listening []) (take (Suc 2) demo_ordered_batch)) =
       trace (demo_listening []) @
         [Call 1 (ArgValue (PyList [PyStr ''first''])),
          Call 1 (ArgValue (PyList [PyStr ''second''])),
          LogInfo CloseReceived]"
    by (simp add: demo_ordered_batch_def hd invoke_all_eq emit_def Let_def)
  have three: "Suc 2 = (3::nat)" by simp
  note T1 = close_truncates [OF k c, of "demo_listening []"]
  from T1 ok have fl: "\<not> connection_alive (snd (dispatch_loop (demo_listening []) demo_ordered_batch))"
    by blast
  from T1 nc ok have st: "snd (dispatch_loop (demo_listening []) demo_ordered_batch) =
      after_dispatch (demo_listening []) (take (Suc 2) demo_ordered_batch)"
    by blast
  note T2 = close_truncates [OF k c, of "(demo_listening demo_ordered_batch)\<lparr>last_message := 3\<rparr>"]
  from T2 nc ok have st2:
    "snd (dispatch_loop ((demo_listening demo_ordered_batch)\<lparr>last_message := 3\<rparr>) demo_ordered_batch) =
       after_dispatch ((demo_listening demo_ordered_batch)\<lparr>last_message := 3\<rparr>)
         (take (Suc 2) demo_ordered_batch)"
    by blast
  have om: "on_message (demo_listening demo_ordered_batch) ''frame'' 3 =
      dispatch_loop ((demo_listening demo_ordered_batch)\<lparr>last_message := 3\<rparr>) demo_ordered_batch"
    using hs pm by (simp add: on_message_def Let_def)
  show ?thesis
    using ok [of "demo_listening []"] fl al st tr st2 om
    by (simp only: three simp_thms)
qed

text \<open>
  A completion for a handler that was never subscribed, followed by a close message: the
  loop stops at the \<^verbatim>\<open>TypeError\<close> and \<^verbatim>\<open>connection_alive\<close> stays true.
\<close>

theorem close_after_error_counterexample:
  "parse_messages (protocol (demo_streaming demo_failing_batch)) ''frame'' ! 1 = CloseMessage None
   \<and> handshake_received (demo_streaming demo_failing_batch)
   \<and> fst (on_message (demo_streaming demo_failing_batch) ''frame'' 3) = Inl TypeError
   \<and> connection_alive (snd (on_message (demo_streaming demo_failing_batch) ''frame'' 3))"
  by (simp add: demo_defs demo_failing_batch_def)

end
